theory Spec2Isabelle
  imports Complex_Main
begin

section \<open>JSON values as the handlers see them\<close>

text \<open>
  Everything the handlers of \<^verbatim>\<open>index.js\<close> touch is a value produced by \<^verbatim>\<open>JSON.parse\<close>:
  the request body (parsed by \<^verbatim>\<open>express.json()\<close>) and the two database files. A number is
  the value of a finite double, so a rational. An object is the list of its own properties
  in enumeration order. \<^verbatim>\<open>undefined\<close> is not a JSON value: reading a property that is not
  there yields it, so a JavaScript value read from a body or a record is a \<open>json option\<close>
  with \<open>None\<close> for \<^verbatim>\<open>undefined\<close>.
\<close>

datatype json =
    JNull
  | JBool bool
  | JNum rat
  | JStr string
  | JArr "json list"
  | JObj "(string \<times> json) list"

type_synonym obj = "(string \<times> json) list"
type_synonym jsval = "json option"

text \<open>
  Reading a property, \<^verbatim>\<open>o.k\<close>, which is also what the destructuring
  \<^verbatim>\<open>const { k } = o\<close> does.
\<close>

definition field :: "obj \<Rightarrow> string \<Rightarrow> jsval" where
  "field ob k = map_of ob k"

text \<open>
  An object literal as \<^verbatim>\<open>JSON.stringify\<close> writes it, to a file, a response or a token:
  a property whose value is \<^verbatim>\<open>undefined\<close> is left out.
\<close>

fun json_object :: "(string \<times> jsval) list \<Rightarrow> obj" where
  "json_object [] = []"
| "json_object ((k, None) # kvs) = json_object kvs"
| "json_object ((k, Some v) # kvs) = (k, v) # json_object kvs"

text \<open>
  \<^verbatim>\<open>a === b\<close> for a value \<open>a\<close> read from a database file and a value \<open>b\<close> read from
  the request: the same type and the same value for primitives; an array or an object is
  equal only to itself, and the two sides come from different \<^verbatim>\<open>JSON.parse\<close> calls.
\<close>

fun strict_eq :: "jsval \<Rightarrow> jsval \<Rightarrow> bool" where
  "strict_eq None None = True"
| "strict_eq (Some JNull) (Some JNull) = True"
| "strict_eq (Some (JBool a)) (Some (JBool b)) = (a = b)"
| "strict_eq (Some (JNum a)) (Some (JNum b)) = (a = b)"
| "strict_eq (Some (JStr a)) (Some (JStr b)) = (a = b)"
| "strict_eq _ _ = False"

text \<open>\<^verbatim>\<open>s.split(c)\<close> for a separator \<open>c\<close> of one character.\<close>

fun split_on :: "char \<Rightarrow> string \<Rightarrow> string list" where
  "split_on c [] = [[]]"
| "split_on c (x # xs) =
     (if x = c then [] # split_on c xs
      else (case split_on c xs of
              [] \<Rightarrow> [[x]]
            | w # ws \<Rightarrow> (x # w) # ws))"

text \<open>\<^verbatim>\<open>xs[i]\<close>, which is \<^verbatim>\<open>undefined\<close> out of range.\<close>

definition nth_opt :: "'a list \<Rightarrow> nat \<Rightarrow> 'a option" where
  "nth_opt xs i = (if i < length xs then Some (xs ! i) else None)"


section \<open>The libraries the handlers call\<close>

text \<open>
  \<^verbatim>\<open>bcrypt\<close> and \<^verbatim>\<open>jsonwebtoken\<close> are not part of the program: they are parameters of the
  model. \<^verbatim>\<open>bcrypt.hash\<close> draws a random salt, which is an argument here; it and
  \<^verbatim>\<open>bcrypt.compare\<close> reject their promise on arguments that are not strings.
  \<^verbatim>\<open>jwt.sign\<close> and \<^verbatim>\<open>jwt.verify\<close> read the clock (in seconds), an argument too.
\<close>

datatype error = BcryptError

datatype jwt_error = TokenExpiredError | JsonWebTokenError

record ext =
  bcrypt_hash :: "string \<Rightarrow> jsval \<Rightarrow> nat \<Rightarrow> error + string"
  bcrypt_compare :: "jsval \<Rightarrow> jsval \<Rightarrow> error + bool"
  jwt_sign :: "obj \<Rightarrow> string \<Rightarrow> string \<Rightarrow> nat \<Rightarrow> string"
  jwt_verify :: "string \<Rightarrow> string \<Rightarrow> nat \<Rightarrow> jwt_error + obj"

text \<open>What one request draws from outside: the clock and the entropy of the salt.\<close>

record world =
  now :: nat
  salt :: string


section \<open>Requests, responses and the two database files\<close>

datatype http_method = GET | POST

record request =
  req_method :: http_method
  req_path :: string
  req_authorization :: "string option"
  req_body :: obj
  req_username :: jsval

datatype res_body =
    Json json
  | Text string
  | StatusMessage

datatype response = Response nat res_body

definition sendStatus :: "nat \<Rightarrow> response" where
  "sendStatus code = Response code StatusMessage"

definition SECRET_KEY :: string where
  "SECRET_KEY = ''your_secret_key''"

text \<open>
  The two files. A file is absent (\<open>None\<close>) or holds an array of objects, which is all
  the handlers ever write; \<^verbatim>\<open>readDatabase\<close> reads an absent file as the empty array.
\<close>

datatype db_path = USERS_DB_PATH | POSTS_DB_PATH

type_synonym fs = "db_path \<rightharpoonup> obj list"

definition readDatabase :: "fs \<Rightarrow> db_path \<Rightarrow> obj list" where
  "readDatabase files filePath =
     (case files filePath of
        None \<Rightarrow> []
      | Some data \<Rightarrow> data)"

definition writeDatabase :: "fs \<Rightarrow> db_path \<Rightarrow> obj list \<Rightarrow> fs" where
  "writeDatabase files filePath data = files(filePath \<mapsto> data)"

type_synonym handler = "ext \<Rightarrow> world \<Rightarrow> request \<Rightarrow> fs \<Rightarrow> error + (response \<times> fs)"


section \<open>The handlers\<close>

definition handleSignUp :: handler where
  "handleSignUp E w req files =
     (let username = field (req_body req) ''username'';
          password = field (req_body req) ''password'';
          users = readDatabase files USERS_DB_PATH
      in case find (\<lambda>user. strict_eq (field user ''username'') username) users of
           Some _ \<Rightarrow>
             Inr (Response 400 (Json (JObj [(''message'', JStr ''User already exists'')])), files)
         | None \<Rightarrow>
             (case bcrypt_hash E (salt w) password 10 of
                Inl e \<Rightarrow> Inl e
              | Inr hashedPassword \<Rightarrow>
                  Inr (Response 201 (Json (JObj [(''message'', JStr ''User registered successfully'')])),
                       writeDatabase files USERS_DB_PATH
                         (users @ [json_object [(''username'', username),
                                                (''password'', Some (JStr hashedPassword))]]))))"

definition handleLogin :: handler where
  "handleLogin E w req files =
     (let username = field (req_body req) ''username'';
          password = field (req_body req) ''password'';
          users = readDatabase files USERS_DB_PATH
      in case find (\<lambda>user. strict_eq (field user ''username'') username) users of
           None \<Rightarrow>
             Inr (Response 401 (Json (JObj [(''message'', JStr ''Invalid credentials'')])), files)
         | Some user \<Rightarrow>
             (case bcrypt_compare E password (field user ''password'') of
                Inl e \<Rightarrow> Inl e
              | Inr ok \<Rightarrow>
                  if \<not> ok
                  then Inr (Response 401 (Json (JObj [(''message'', JStr ''Invalid credentials'')])), files)
                  else Inr (Response 200
                              (Json (JObj [(''token'',
                                 JStr (jwt_sign E (json_object [(''username'', username)])
                                         SECRET_KEY ''1h'' (now w)))])),
                            files)))"

text \<open>The token of a request: \<^verbatim>\<open>req.headers['authorization']?.split(' ')[1]\<close>.\<close>

definition bearer_token :: "request \<Rightarrow> string option" where
  "bearer_token req =
     (case req_authorization req of
        None \<Rightarrow> None
      | Some h \<Rightarrow> nth_opt (split_on CHR '' '' h) 1)"

text \<open>
  The middleware either answers itself (\<open>Inl\<close>) or calls \<^verbatim>\<open>next()\<close> on the request,
  with \<^verbatim>\<open>req.username\<close> set (\<open>Inr\<close>). The decoded payload is an object; \<^verbatim>\<open>!token\<close>
  holds of \<^verbatim>\<open>undefined\<close> and of the empty string.
\<close>

definition verifyUser :: "ext \<Rightarrow> world \<Rightarrow> request \<Rightarrow> response + request" where
  "verifyUser E w req =
     (case bearer_token req of
        None \<Rightarrow> Inl (sendStatus 401)
      | Some token \<Rightarrow>
          if token = [] then Inl (sendStatus 401)
          else (case jwt_verify E token SECRET_KEY (now w) of
                  Inl err \<Rightarrow> Inl (sendStatus 403)
                | Inr decoded \<Rightarrow> Inr (req\<lparr>req_username := field decoded ''username''\<rparr>)))"

definition fetchAllAccounts :: handler where
  "fetchAllAccounts E w req files =
     Inr (Response 200 (Json (JArr (map JObj (readDatabase files USERS_DB_PATH)))), files)"

definition handleRequest :: handler where
  "handleRequest E w req files = Inr (Response 200 (Text ''Request handled''), files)"

definition handleCreatePost :: handler where
  "handleCreatePost E w req files =
     (let posts = readDatabase files POSTS_DB_PATH;
          content = field (req_body req) ''content'';
          newPost = json_object [(''id'', Some (JNum (of_nat (length posts) + 1))),
                                 (''username'', req_username req),
                                 (''content'', content)]
      in Inr (Response 201 (Json (JObj newPost)),
              writeDatabase files POSTS_DB_PATH (posts @ [newPost])))"

definition fetchAllPosts :: handler where
  "fetchAllPosts E w req files =
     Inr (Response 200 (Json (JArr (map JObj (readDatabase files POSTS_DB_PATH)))), files)"

definition fetchPendingRequests :: handler where
  "fetchPendingRequests E w req files = Inr (Response 200 (Text ''Pending requests fetched''), files)"

definition handleAcceptRequest :: handler where
  "handleAcceptRequest E w req files = Inr (Response 200 (Text ''Request accepted''), files)"

definition fetchUserPosts :: handler where
  "fetchUserPosts E w req files =
     (let posts = filter (\<lambda>post. strict_eq (field post ''username'') (req_username req))
                    (readDatabase files POSTS_DB_PATH)
      in Inr (Response 200 (Json (JArr (map JObj posts))), files))"

definition handlePrivacySettings :: handler where
  "handlePrivacySettings E w req files = Inr (Response 200 (Text ''Privacy settings updated''), files)"

definition handleRemovePost :: handler where
  "handleRemovePost E w req files =
     (let posts = readDatabase files POSTS_DB_PATH;
          postId = field (req_body req) ''postId'';
          updatedPosts = filter (\<lambda>post. \<not> strict_eq (field post ''id'') postId) posts
      in Inr (Response 200 (Text ''Post removed''),
              writeDatabase files POSTS_DB_PATH updatedPosts))"

definition handleLikePost :: handler where
  "handleLikePost E w req files = Inr (Response 200 (Text ''Post liked''), files)"

definition handleAddComment :: handler where
  "handleAddComment E w req files = Inr (Response 200 (Text ''Comment added''), files)"


section \<open>The routes\<close>

text \<open>
  One entry per \<^verbatim>\<open>app.get\<close>/\<^verbatim>\<open>app.post\<close> line, in the order of the source; the flag says
  whether \<^verbatim>\<open>verifyUser\<close> stands before the handler.
\<close>

definition routes :: "(http_method \<times> string \<times> bool \<times> handler) list" where
  "routes =
     [(POST, ''/register'', False, handleSignUp),
      (POST, ''/login'', False, handleLogin),
      (GET, ''/accounts'', True, fetchAllAccounts),
      (POST, ''/request'', True, handleRequest),
      (GET, ''/pendingRequests'', True, fetchPendingRequests),
      (POST, ''/acceptRequest'', True, handleAcceptRequest),
      (POST, ''/createPost'', True, handleCreatePost),
      (GET, ''/posts'', False, fetchAllPosts),
      (GET, ''/userPosts'', True, fetchUserPosts),
      (POST, ''/updatePrivacySettings'', True, handlePrivacySettings),
      (POST, ''/removePost'', True, handleRemovePost),
      (POST, ''/likePost'', True, handleLikePost),
      (POST, ''/addComment'', True, handleAddComment)]"

text \<open>The middleware chain of one route.\<close>

definition run_route :: "bool \<times> handler \<Rightarrow> handler" where
  "run_route r E w req files =
     (if fst r
      then (case verifyUser E w req of
              Inl res \<Rightarrow> Inr (res, files)
            | Inr req' \<Rightarrow> snd r E w req' files)
      else snd r E w req files)"

text \<open>
  Dispatch: the first route with the method and path of the request; Express answers 404
  when there is none.
\<close>

definition app :: handler where
  "app E w req files =
     (case find (\<lambda>(m, p, r). m = req_method req \<and> p = req_path req) routes of
        None \<Rightarrow> Inr (sendStatus 404, files)
      | Some (m, p, r) \<Rightarrow> run_route r E w req files)"


section \<open>What is assumed of the libraries\<close>

text \<open>
  \<^verbatim>\<open>bcrypt\<close>: hashing a string with cost 10 returns a hash, whatever the salt; comparing
  the string that was hashed with that hash says yes; comparing any string with it returns
  an answer. Nothing is assumed of the answer for another string: the library reads no more
  than the first 72 bytes of a password.
\<close>

definition bcrypt_sound :: "ext \<Rightarrow> bool" where
  "bcrypt_sound E \<longleftrightarrow>
     (\<forall>s p. case bcrypt_hash E s (Some (JStr p)) 10 of
              Inl e \<Rightarrow> False
            | Inr h \<Rightarrow>
                bcrypt_compare E (Some (JStr p)) (Some (JStr h)) = Inr True \<and>
                (\<forall>x. \<exists>b. bcrypt_compare E (Some (JStr x)) (Some (JStr h)) = Inr b))"

text \<open>
  \<^verbatim>\<open>jsonwebtoken\<close>, for one payload signed with \<^verbatim>\<open>SECRET_KEY\<close> and \<^verbatim>\<open>expiresIn: '1h'\<close> at
  second \<open>t\<close>: the token is a non-empty string without a space; verified with the same key
  at second \<open>t'\<close> it decodes to the payload followed by \<^verbatim>\<open>iat\<close> = \<open>t\<close> and
  \<^verbatim>\<open>exp\<close> = \<open>t + 3600\<close> as long as \<open>t' < t + 3600\<close>, and fails with
  \<^verbatim>\<open>TokenExpiredError\<close> from then on.
\<close>

definition jwt_contract :: "ext \<Rightarrow> obj \<Rightarrow> bool" where
  "jwt_contract E payload \<longleftrightarrow>
     (\<forall>t. let token = jwt_sign E payload SECRET_KEY ''1h'' t
          in token \<noteq> [] \<and> CHR '' '' \<notin> set token \<and>
             (\<forall>t'. jwt_verify E token SECRET_KEY t' =
                     (if t' < t + 3600
                      then Inr (payload @ [(''iat'', JNum (of_nat t)),
                                           (''exp'', JNum (of_nat (t + 3600)))])
                      else Inl TokenExpiredError)))"

text \<open>
  An instance of the parameters that meets both contracts, for running the handlers on
  concrete requests: the hash of a password is the password, and a token is the username,
  a dot, and the issuing second in unary.
\<close>

definition clear_ext :: ext where
  "clear_ext =
     \<lparr>bcrypt_hash = (\<lambda>s data rounds.
        case data of
          Some (JStr p) \<Rightarrow> Inr p
        | _ \<Rightarrow> Inl BcryptError),
      bcrypt_compare = (\<lambda>data hash.
        case data of
          Some (JStr p) \<Rightarrow>
            (case hash of
               Some (JStr h) \<Rightarrow> Inr (p = h)
             | _ \<Rightarrow> Inl BcryptError)
        | _ \<Rightarrow> Inl BcryptError),
      jwt_sign = (\<lambda>payload key expiresIn t.
        case field payload ''username'' of
          Some (JStr u) \<Rightarrow> u @ ''.'' @ replicate t (CHR ''i'')
        | _ \<Rightarrow> ''.'' @ replicate t (CHR ''i'')),
      jwt_verify = (\<lambda>token key t'.
        if CHR ''.'' \<notin> set token then Inl JsonWebTokenError
        else
          let u = takeWhile (\<lambda>c. c \<noteq> CHR ''.'') token;
              t = length (dropWhile (\<lambda>c. c \<noteq> CHR ''.'') token) - 1
          in if t' < t + 3600
             then Inr [(''username'', JStr u),
                       (''iat'', JNum (of_nat t)),
                       (''exp'', JNum (of_nat (t + 3600)))]
             else Inl TokenExpiredError)\<rparr>"


text \<open>
  The same instance with the 72-byte limit of \<^verbatim>\<open>bcrypt\<close>: only the first 72 characters
  of a password enter its hash and are compared.
\<close>

definition bcrypt72_ext :: ext where
  "bcrypt72_ext =
     clear_ext
       \<lparr>bcrypt_hash := (\<lambda>s data rounds.
          case data of
            Some (JStr p) \<Rightarrow> Inr (take 72 p)
          | _ \<Rightarrow> Inl BcryptError),
        bcrypt_compare := (\<lambda>data hash.
          case data of
            Some (JStr p) \<Rightarrow>
              (case hash of
                 Some (JStr h) \<Rightarrow> Inr (take 72 p = h)
               | _ \<Rightarrow> Inl BcryptError)
          | _ \<Rightarrow> Inl BcryptError)\<rparr>"


section \<open>Facts about the JSON helpers\<close>

lemma strict_eq_str: "strict_eq v (Some (JStr s)) = (v = Some (JStr s))"
  by (cases "(v, Some (JStr s))" rule: strict_eq.cases) auto

lemma strict_eq_num: "strict_eq v (Some (JNum n)) = (v = Some (JNum n))"
  by (cases "(v, Some (JNum n))" rule: strict_eq.cases) auto

lemma strict_eq_plain:
  "strict_eq a b \<longleftrightarrow>
     a = b \<and> (\<forall>xs. b \<noteq> Some (JArr xs)) \<and> (\<forall>kvs. b \<noteq> Some (JObj kvs))"
  by (cases "(a, b)" rule: strict_eq.cases) auto

lemma json_object_keys: "fst ` set (json_object kvs) \<subseteq> fst ` set kvs"
  by (induction kvs rule: json_object.induct) auto

lemma field_json_object:
  "distinct (map fst kvs) \<Longrightarrow>
   field (json_object kvs) k = (case map_of kvs k of None \<Rightarrow> None | Some v \<Rightarrow> v)"
proof (induction kvs rule: json_object.induct)
  case 1
  then show ?case by (simp add: field_def)
next
  case (2 k' kvs)
  have "k' \<notin> fst ` set (json_object kvs)"
    using 2(2) json_object_keys[of kvs] by auto
  then have "map_of (json_object kvs) k' = None"
    by (simp add: map_of_eq_None_iff)
  moreover have "map_of kvs k' = None"
    using 2(2) by (simp add: map_of_eq_None_iff)
  ultimately show ?case using 2 by (simp add: field_def)
next
  case (3 k' v kvs)
  then show ?case by (simp add: field_def)
qed

lemma readDatabase_write: "readDatabase (files(p \<mapsto> d)) p = d"
  by (simp add: readDatabase_def)

lemma find_append_split:
  "find P (xs @ ys) = (case find P xs of None \<Rightarrow> find P ys | Some x \<Rightarrow> Some x)"
  by (induction xs) auto

lemma split_on_no_sep: "c \<notin> set xs \<Longrightarrow> split_on c xs = [xs]"
  by (induction xs) auto

lemma split_on_first: "c \<notin> set xs \<Longrightarrow> split_on c (xs @ c # ys) = xs # split_on c ys"
  by (induction xs) auto

lemma bearer_token_absent: "req_authorization req = None \<Longrightarrow> bearer_token req = None"
  by (simp add: bearer_token_def)

lemma bearer_token_Bearer:
  assumes "req_authorization req = Some (''Bearer '' @ token)" "CHR '' '' \<notin> set token"
  shows "bearer_token req = Some token"
proof -
  have eq: "''Bearer '' @ token = ''Bearer'' @ CHR '' '' # token"
    by simp
  have "CHR '' '' \<notin> set ''Bearer''"
    by simp
  then have "split_on CHR '' '' (''Bearer'' @ CHR '' '' # token) = [''Bearer'', token]"
    using split_on_first[of "CHR '' ''" "''Bearer''" token] split_on_no_sep[OF assms(2)]
    by (simp del: split_on.simps append.simps)
  then have "split_on CHR '' '' (''Bearer '' @ token) = [''Bearer'', token]"
    by (simp only: eq)
  then show ?thesis
    using assms(1) by (simp add: bearer_token_def nth_opt_def del: split_on.simps append.simps)
qed


section \<open>The instances meet the contracts\<close>

lemma clear_ext_bcrypt: "bcrypt_sound clear_ext"
  by (simp add: bcrypt_sound_def clear_ext_def)

lemma bcrypt72_ext_bcrypt: "bcrypt_sound bcrypt72_ext"
  by (simp add: bcrypt_sound_def bcrypt72_ext_def)

lemma clear_ext_jwt: "jwt_contract clear_ext [(''username'', JStr ''alice'')]"
  unfolding jwt_contract_def Let_def
proof (intro allI conjI)
  fix t t'
  let ?tok = "jwt_sign clear_ext [(''username'', JStr ''alice'')] SECRET_KEY ''1h'' t"
  have tok: "?tok = ''alice.'' @ replicate t (CHR ''i'')"
    by (simp add: clear_ext_def field_def)
  show "?tok \<noteq> []" by (simp add: tok)
  show "CHR '' '' \<notin> set ?tok" by (simp add: tok)
  show "jwt_verify clear_ext ?tok SECRET_KEY t' =
          (if t' < t + 3600
           then Inr ([(''username'', JStr ''alice'')] @
                     [(''iat'', JNum (of_nat t)), (''exp'', JNum (of_nat (t + 3600)))])
           else Inl TokenExpiredError)"
    unfolding tok by (simp add: clear_ext_def Let_def)
qed

lemma bcrypt_soundD:
  assumes "bcrypt_sound E"
  shows "\<exists>h. bcrypt_hash E s (Some (JStr p)) 10 = Inr h \<and>
             bcrypt_compare E (Some (JStr p)) (Some (JStr h)) = Inr True \<and>
             (\<forall>x. \<exists>b. bcrypt_compare E (Some (JStr x)) (Some (JStr h)) = Inr b)"
proof -
  from assms have
    "case bcrypt_hash E s (Some (JStr p)) 10 of
       Inl e \<Rightarrow> False
     | Inr h \<Rightarrow>
         bcrypt_compare E (Some (JStr p)) (Some (JStr h)) = Inr True \<and>
         (\<forall>x. \<exists>b. bcrypt_compare E (Some (JStr x)) (Some (JStr h)) = Inr b)"
    unfolding bcrypt_sound_def by (elim allE)
  then show ?thesis
    by (cases "bcrypt_hash E s (Some (JStr p)) 10") simp_all
qed


section \<open>Registration and login\<close>

text \<open>
  The handlers are modelled one request at a time: a handler runs from its read of the file
  to its write before the next request starts.
\<close>

text \<open>
  Claim C2. For a request whose \<^verbatim>\<open>username\<close> is the string \<open>u\<close>: when some record of the
  user file has exactly the username \<open>u\<close>, \<^verbatim>\<open>handleSignUp\<close> answers 400 "User already
  exists" and leaves both files as they were; when no record has it and \<^verbatim>\<open>bcrypt.hash\<close>
  (cost 10) returns \<open>h\<close> for the password, it answers 201 and the user file holds the
  records read followed by the record with username \<open>u\<close> and password \<open>h\<close>.
\<close>

theorem register_duplicate_or_created:
  assumes "field (req_body req) ''username'' = Some (JStr u)"
  shows "((\<exists>user \<in> set (readDatabase files USERS_DB_PATH). field user ''username'' = Some (JStr u)) \<longrightarrow>
            handleSignUp E w req files =
              Inr (Response 400 (Json (JObj [(''message'', JStr ''User already exists'')])), files)) \<and>
         ((\<forall>user \<in> set (readDatabase files USERS_DB_PATH). field user ''username'' \<noteq> Some (JStr u)) \<longrightarrow>
            (\<forall>h. bcrypt_hash E (salt w) (field (req_body req) ''password'') 10 = Inr h \<longrightarrow>
               handleSignUp E w req files =
                 Inr (Response 201 (Json (JObj [(''message'', JStr ''User registered successfully'')])),
                      files(USERS_DB_PATH \<mapsto>
                        readDatabase files USERS_DB_PATH @
                          [[(''username'', JStr u), (''password'', JStr h)]]))))"
proof (intro conjI impI allI)
  assume "\<exists>user \<in> set (readDatabase files USERS_DB_PATH). field user ''username'' = Some (JStr u)"
  then have "find (\<lambda>user. strict_eq (field user ''username'') (Some (JStr u)))
               (readDatabase files USERS_DB_PATH) \<noteq> None"
    by (auto simp add: find_None_iff strict_eq_str)
  then show "handleSignUp E w req files =
      Inr (Response 400 (Json (JObj [(''message'', JStr ''User already exists'')])), files)"
    using assms by (auto simp add: handleSignUp_def)
next
  fix h
  assume "\<forall>user \<in> set (readDatabase files USERS_DB_PATH). field user ''username'' \<noteq> Some (JStr u)"
    and h: "bcrypt_hash E (salt w) (field (req_body req) ''password'') 10 = Inr h"
  then have "find (\<lambda>user. strict_eq (field user ''username'') (Some (JStr u)))
               (readDatabase files USERS_DB_PATH) = None"
    by (simp add: find_None_iff strict_eq_str)
  then show "handleSignUp E w req files =
      Inr (Response 201 (Json (JObj [(''message'', JStr ''User registered successfully'')])),
           files(USERS_DB_PATH \<mapsto>
             readDatabase files USERS_DB_PATH @ [[(''username'', JStr u), (''password'', JStr h)]]))"
    using assms h by (simp add: handleSignUp_def writeDatabase_def)
qed

theorem register_duplicate_or_created_witness:
  "handleSignUp clear_ext \<lparr>now = 0, salt = ''s''\<rparr>
     \<lparr>req_method = POST, req_path = ''/register'', req_authorization = None,
      req_body = [(''username'', JStr ''alice''), (''password'', JStr ''other'')],
      req_username = None\<rparr>
     [USERS_DB_PATH \<mapsto> [[(''username'', JStr ''alice''), (''password'', JStr ''pw'')]]] =
     Inr (Response 400 (Json (JObj [(''message'', JStr ''User already exists'')])),
          [USERS_DB_PATH \<mapsto> [[(''username'', JStr ''alice''), (''password'', JStr ''pw'')]]]) \<and>
   handleSignUp clear_ext \<lparr>now = 0, salt = ''s''\<rparr>
     \<lparr>req_method = POST, req_path = ''/register'', req_authorization = None,
      req_body = [(''username'', JStr ''Alice''), (''password'', JStr ''other'')],
      req_username = None\<rparr>
     [USERS_DB_PATH \<mapsto> [[(''username'', JStr ''alice''), (''password'', JStr ''pw'')]]] =
     Inr (Response 201 (Json (JObj [(''message'', JStr ''User registered successfully'')])),
          [USERS_DB_PATH \<mapsto> [[(''username'', JStr ''alice''), (''password'', JStr ''pw'')],
                              [(''username'', JStr ''Alice''), (''password'', JStr ''other'')]]])"
  using
    register_duplicate_or_created[of
      "\<lparr>req_method = POST, req_path = ''/register'', req_authorization = None,
        req_body = [(''username'', JStr ''alice''), (''password'', JStr ''other'')],
        req_username = None\<rparr>" "''alice''"
      "[USERS_DB_PATH \<mapsto> [[(''username'', JStr ''alice''), (''password'', JStr ''pw'')]]]"
      clear_ext "\<lparr>now = 0, salt = ''s''\<rparr>"]
    register_duplicate_or_created[of
      "\<lparr>req_method = POST, req_path = ''/register'', req_authorization = None,
        req_body = [(''username'', JStr ''Alice''), (''password'', JStr ''other'')],
        req_username = None\<rparr>" "''Alice''"
      "[USERS_DB_PATH \<mapsto> [[(''username'', JStr ''alice''), (''password'', JStr ''pw'')]]]"
      clear_ext "\<lparr>now = 0, salt = ''s''\<rparr>"]
  by (simp add: field_def readDatabase_def clear_ext_def)

text \<open>
  Claim C1, as the code has it. For strings \<open>u\<close> and \<open>p\<close> and a user file with no record
  of username \<open>u\<close>: registering \<open>u\<close> with \<open>p\<close> answers 201 and stores the hash \<open>h\<close>
  that \<^verbatim>\<open>bcrypt.hash\<close> returned. On the files it leaves, a login with username \<open>u\<close> and
  password \<open>p\<close> answers 200 with a token signed over \<^verbatim>\<open>{username: u}\<close>; a login with
  username \<open>u\<close> and a string password \<open>x\<close> answers 200 with that token when
  \<^verbatim>\<open>bcrypt.compare\<close> accepts \<open>x\<close> against \<open>h\<close>, and 401 "Invalid credentials" when it does
  not. Whether a password other than \<open>p\<close> is refused is the library's decision.
\<close>

theorem register_then_authenticate:
  assumes lib: "bcrypt_sound E"
    and u: "field (req_body reg) ''username'' = Some (JStr u)"
    and p: "field (req_body reg) ''password'' = Some (JStr p)"
    and fresh: "\<forall>user \<in> set (readDatabase files USERS_DB_PATH). field user ''username'' \<noteq> Some (JStr u)"
  shows "\<exists>h.
           bcrypt_hash E (salt w) (Some (JStr p)) 10 = Inr h \<and>
           handleSignUp E w reg files =
             Inr (Response 201 (Json (JObj [(''message'', JStr ''User registered successfully'')])),
                  files(USERS_DB_PATH \<mapsto>
                    readDatabase files USERS_DB_PATH @
                      [[(''username'', JStr u), (''password'', JStr h)]])) \<and>
           (\<forall>w' login.
              field (req_body login) ''username'' = Some (JStr u) \<longrightarrow>
              field (req_body login) ''password'' = Some (JStr p) \<longrightarrow>
              handleLogin E w' login
                (files(USERS_DB_PATH \<mapsto>
                   readDatabase files USERS_DB_PATH @
                     [[(''username'', JStr u), (''password'', JStr h)]])) =
                Inr (Response 200
                       (Json (JObj [(''token'',
                          JStr (jwt_sign E [(''username'', JStr u)] SECRET_KEY ''1h'' (now w')))])),
                     files(USERS_DB_PATH \<mapsto>
                       readDatabase files USERS_DB_PATH @
                         [[(''username'', JStr u), (''password'', JStr h)]]))) \<and>
           (\<forall>w' login x.
              field (req_body login) ''username'' = Some (JStr u) \<longrightarrow>
              field (req_body login) ''password'' = Some (JStr x) \<longrightarrow>
              handleLogin E w' login
                (files(USERS_DB_PATH \<mapsto>
                   readDatabase files USERS_DB_PATH @
                     [[(''username'', JStr u), (''password'', JStr h)]])) =
                (if bcrypt_compare E (Some (JStr x)) (Some (JStr h)) = Inr True
                 then Inr (Response 200
                             (Json (JObj [(''token'',
                                JStr (jwt_sign E [(''username'', JStr u)] SECRET_KEY ''1h'' (now w')))])),
                           files(USERS_DB_PATH \<mapsto>
                             readDatabase files USERS_DB_PATH @
                               [[(''username'', JStr u), (''password'', JStr h)]]))
                 else Inr (Response 401 (Json (JObj [(''message'', JStr ''Invalid credentials'')])),
                           files(USERS_DB_PATH \<mapsto>
                             readDatabase files USERS_DB_PATH @
                               [[(''username'', JStr u), (''password'', JStr h)]]))))"
proof -
  let ?users = "readDatabase files USERS_DB_PATH"
  let ?P = "\<lambda>user. strict_eq (field user ''username'') (Some (JStr u))"
  obtain h where h: "bcrypt_hash E (salt w) (Some (JStr p)) 10 = Inr h"
    and own: "bcrypt_compare E (Some (JStr p)) (Some (JStr h)) = Inr True"
    and ans: "\<And>x. \<exists>b. bcrypt_compare E (Some (JStr x)) (Some (JStr h)) = Inr b"
    using bcrypt_soundD[OF lib, of "salt w" p] by blast
  have none: "find ?P ?users = None"
    using fresh by (simp add: find_None_iff strict_eq_str)
  let ?new = "[(''username'', JStr u), (''password'', JStr h)]"
  let ?files' = "files(USERS_DB_PATH \<mapsto> ?users @ [?new])"
  have signup: "handleSignUp E w reg files =
      Inr (Response 201 (Json (JObj [(''message'', JStr ''User registered successfully'')])), ?files')"
    by (simp add: handleSignUp_def u p none h writeDatabase_def)
  have rd: "readDatabase ?files' USERS_DB_PATH = ?users @ [?new]"
    by (simp add: readDatabase_def)
  have "strict_eq (field ?new ''username'') (Some (JStr u))"
    by (simp add: field_def)
  then have found: "find ?P (?users @ [?new]) = Some ?new"
    by (simp add: find_append_split none)
  have any: "handleLogin E w' login ?files' =
                (if bcrypt_compare E (Some (JStr x)) (Some (JStr h)) = Inr True
                 then Inr (Response 200
                             (Json (JObj [(''token'',
                                JStr (jwt_sign E [(''username'', JStr u)] SECRET_KEY ''1h'' (now w')))])),
                           ?files')
                 else Inr (Response 401 (Json (JObj [(''message'', JStr ''Invalid credentials'')])),
                           ?files'))"
    if un: "field (req_body login) ''username'' = Some (JStr u)"
      and pw: "field (req_body login) ''password'' = Some (JStr x)" for w' login x
  proof -
    obtain b where b: "bcrypt_compare E (Some (JStr x)) (Some (JStr h)) = Inr b"
      using ans by blast
    have pwd: "field ?new ''password'' = Some (JStr h)"
      by (simp add: field_def)
    show ?thesis
      by (cases b) (simp_all add: handleLogin_def Let_def un pw rd found pwd b)
  qed
  have same: "handleLogin E w' login ?files' =
                Inr (Response 200
                       (Json (JObj [(''token'',
                          JStr (jwt_sign E [(''username'', JStr u)] SECRET_KEY ''1h'' (now w')))])),
                     ?files')"
    if "field (req_body login) ''username'' = Some (JStr u)"
      and "field (req_body login) ''password'' = Some (JStr p)" for w' login
    using any[OF that] own by simp
  show ?thesis
    using h signup same any by (intro exI[of _ h]) blast
qed

theorem register_then_authenticate_witness:
  "bcrypt_sound clear_ext \<and>
   handleSignUp clear_ext \<lparr>now = 0, salt = ''s''\<rparr>
     \<lparr>req_method = POST, req_path = ''/register'', req_authorization = None,
      req_body = [(''username'', JStr ''alice''), (''password'', JStr ''pw'')],
      req_username = None\<rparr>
     Map.empty =
     Inr (Response 201 (Json (JObj [(''message'', JStr ''User registered successfully'')])),
          [USERS_DB_PATH \<mapsto> [[(''username'', JStr ''alice''), (''password'', JStr ''pw'')]]]) \<and>
   handleLogin clear_ext \<lparr>now = 5, salt = []\<rparr>
     \<lparr>req_method = POST, req_path = ''/login'', req_authorization = None,
      req_body = [(''username'', JStr ''alice''), (''password'', JStr ''pw'')],
      req_username = None\<rparr>
     [USERS_DB_PATH \<mapsto> [[(''username'', JStr ''alice''), (''password'', JStr ''pw'')]]] =
     Inr (Response 200
            (Json (JObj [(''token'',
               JStr (jwt_sign clear_ext [(''username'', JStr ''alice'')] SECRET_KEY ''1h'' 5))])),
          [USERS_DB_PATH \<mapsto> [[(''username'', JStr ''alice''), (''password'', JStr ''pw'')]]]) \<and>
   handleLogin clear_ext \<lparr>now = 5, salt = []\<rparr>
     \<lparr>req_method = POST, req_path = ''/login'', req_authorization = None,
      req_body = [(''username'', JStr ''alice''), (''password'', JStr ''wrong'')],
      req_username = None\<rparr>
     [USERS_DB_PATH \<mapsto> [[(''username'', JStr ''alice''), (''password'', JStr ''pw'')]]] =
     Inr (Response 401 (Json (JObj [(''message'', JStr ''Invalid credentials'')])),
          [USERS_DB_PATH \<mapsto> [[(''username'', JStr ''alice''), (''password'', JStr ''pw'')]]])"
proof -
  let ?reg = "\<lparr>req_method = POST, req_path = ''/register'', req_authorization = None,
         req_body = [(''username'', JStr ''alice''), (''password'', JStr ''pw'')],
         req_username = None\<rparr>"
  let ?files' = "[USERS_DB_PATH \<mapsto> [[(''username'', JStr ''alice''), (''password'', JStr ''pw'')]]]"
  have u: "field (req_body ?reg) ''username'' = Some (JStr ''alice'')"
    and p: "field (req_body ?reg) ''password'' = Some (JStr ''pw'')"
    by (simp_all add: field_def)
  have fresh: "\<forall>user \<in> set (readDatabase Map.empty USERS_DB_PATH).
      field user ''username'' \<noteq> Some (JStr ''alice'')"
    by (simp add: readDatabase_def)
  have hash: "bcrypt_hash clear_ext ''s'' (Some (JStr ''pw'')) 10 = Inr ''pw''"
    by (simp add: clear_ext_def)
  have cmp: "bcrypt_compare clear_ext (Some (JStr ''wrong'')) (Some (JStr ''pw'')) = Inr False"
    by (simp add: clear_ext_def)
  have empty: "readDatabase Map.empty USERS_DB_PATH = []"
    by (simp add: readDatabase_def)
  from register_then_authenticate[OF clear_ext_bcrypt u p fresh, of "\<lparr>now = 0, salt = ''s''\<rparr>"]
  have reg: "handleSignUp clear_ext \<lparr>now = 0, salt = ''s''\<rparr> ?reg Map.empty =
        Inr (Response 201 (Json (JObj [(''message'', JStr ''User registered successfully'')])), ?files')"
    and login: "\<And>w' login x.
              field (req_body login) ''username'' = Some (JStr ''alice'') \<Longrightarrow>
              field (req_body login) ''password'' = Some (JStr x) \<Longrightarrow>
              handleLogin clear_ext w' login ?files' =
                (if bcrypt_compare clear_ext (Some (JStr x)) (Some (JStr ''pw'')) = Inr True
                 then Inr (Response 200
                             (Json (JObj [(''token'',
                                JStr (jwt_sign clear_ext [(''username'', JStr ''alice'')] SECRET_KEY ''1h'' (now w')))])),
                           ?files')
                 else Inr (Response 401 (Json (JObj [(''message'', JStr ''Invalid credentials'')])),
                           ?files'))"
    by (auto simp add: hash empty)
  have ok: "bcrypt_compare clear_ext (Some (JStr ''pw'')) (Some (JStr ''pw'')) = Inr True"
    by (simp add: clear_ext_def)
  show ?thesis
    using clear_ext_bcrypt reg
      login[of "\<lparr>req_method = POST, req_path = ''/login'', req_authorization = None,
         req_body = [(''username'', JStr ''alice''), (''password'', JStr ''pw'')],
         req_username = None\<rparr>" "''pw''" "\<lparr>now = 5, salt = []\<rparr>"]
      login[of "\<lparr>req_method = POST, req_path = ''/login'', req_authorization = None,
         req_body = [(''username'', JStr ''alice''), (''password'', JStr ''wrong'')],
         req_username = None\<rparr>" "''wrong''" "\<lparr>now = 5, salt = []\<rparr>"]
    by (simp add: field_def ok cmp)
qed

text \<open>
  The claim as the specification words it, that every password other than \<open>p\<close> is
  refused, fails once \<^verbatim>\<open>bcrypt\<close> stops reading at 72 characters: after registering with
  72 times \<open>a\<close> and then \<open>b\<close>, the login with 72 times \<open>a\<close> and then \<open>c\<close> is answered 200
  with a token.
\<close>

theorem register_then_authenticate_counterexample:
  "replicate 72 (CHR ''a'') @ ''c'' \<noteq> replicate 72 (CHR ''a'') @ ''b'' \<and>
   handleSignUp bcrypt72_ext \<lparr>now = 0, salt = ''s''\<rparr>
     \<lparr>req_method = POST, req_path = ''/register'', req_authorization = None,
      req_body = [(''username'', JStr ''alice''),
                  (''password'', JStr (replicate 72 (CHR ''a'') @ ''b''))],
      req_username = None\<rparr>
     Map.empty =
     Inr (Response 201 (Json (JObj [(''message'', JStr ''User registered successfully'')])),
          [USERS_DB_PATH \<mapsto>
             [[(''username'', JStr ''alice''), (''password'', JStr (replicate 72 (CHR ''a'')))]]]) \<and>
   handleLogin bcrypt72_ext \<lparr>now = 5, salt = []\<rparr>
     \<lparr>req_method = POST, req_path = ''/login'', req_authorization = None,
      req_body = [(''username'', JStr ''alice''),
                  (''password'', JStr (replicate 72 (CHR ''a'') @ ''c''))],
      req_username = None\<rparr>
     [USERS_DB_PATH \<mapsto>
        [[(''username'', JStr ''alice''), (''password'', JStr (replicate 72 (CHR ''a'')))]]] =
     Inr (Response 200
            (Json (JObj [(''token'',
               JStr (jwt_sign bcrypt72_ext [(''username'', JStr ''alice'')] SECRET_KEY ''1h'' 5))])),
          [USERS_DB_PATH \<mapsto>
             [[(''username'', JStr ''alice''), (''password'', JStr (replicate 72 (CHR ''a'')))]]])"
  by (simp add: handleSignUp_def handleLogin_def readDatabase_def writeDatabase_def field_def
        bcrypt72_ext_def)

text \<open>
  Claim C8. \<^verbatim>\<open>handleLogin\<close> gives one and the same answer, 401 "Invalid credentials" with
  the files untouched, when no record has the username of the request and when a record has
  it but \<^verbatim>\<open>bcrypt.compare\<close> says that the password does not match its hash.
\<close>

theorem login_uniform_failure:
  assumes "find (\<lambda>user. strict_eq (field user ''username'') (field (req_body req) ''username''))
             (readDatabase files USERS_DB_PATH) = None
           \<or> (\<exists>user.
                find (\<lambda>user. strict_eq (field user ''username'') (field (req_body req) ''username''))
                  (readDatabase files USERS_DB_PATH) = Some user \<and>
                bcrypt_compare E (field (req_body req) ''password'') (field user ''password'') = Inr False)"
  shows "handleLogin E w req files =
           Inr (Response 401 (Json (JObj [(''message'', JStr ''Invalid credentials'')])), files)"
  using assms by (auto simp add: handleLogin_def)

theorem login_uniform_failure_witness:
  "handleLogin clear_ext \<lparr>now = 0, salt = []\<rparr>
     \<lparr>req_method = POST, req_path = ''/login'', req_authorization = None,
      req_body = [(''username'', JStr ''nobody''), (''password'', JStr ''pw'')],
      req_username = None\<rparr>
     [USERS_DB_PATH \<mapsto> [[(''username'', JStr ''alice''), (''password'', JStr ''pw'')]]] =
     Inr (Response 401 (Json (JObj [(''message'', JStr ''Invalid credentials'')])),
          [USERS_DB_PATH \<mapsto> [[(''username'', JStr ''alice''), (''password'', JStr ''pw'')]]]) \<and>
   handleLogin clear_ext \<lparr>now = 0, salt = []\<rparr>
     \<lparr>req_method = POST, req_path = ''/login'', req_authorization = None,
      req_body = [(''username'', JStr ''alice''), (''password'', JStr ''wrong'')],
      req_username = None\<rparr>
     [USERS_DB_PATH \<mapsto> [[(''username'', JStr ''alice''), (''password'', JStr ''pw'')]]] =
     Inr (Response 401 (Json (JObj [(''message'', JStr ''Invalid credentials'')])),
          [USERS_DB_PATH \<mapsto> [[(''username'', JStr ''alice''), (''password'', JStr ''pw'')]]])"
  using
    login_uniform_failure[of
      "\<lparr>req_method = POST, req_path = ''/login'', req_authorization = None,
        req_body = [(''username'', JStr ''nobody''), (''password'', JStr ''pw'')],
        req_username = None\<rparr>"
      "[USERS_DB_PATH \<mapsto> [[(''username'', JStr ''alice''), (''password'', JStr ''pw'')]]]"
      clear_ext "\<lparr>now = 0, salt = []\<rparr>"]
    login_uniform_failure[of
      "\<lparr>req_method = POST, req_path = ''/login'', req_authorization = None,
        req_body = [(''username'', JStr ''alice''), (''password'', JStr ''wrong'')],
        req_username = None\<rparr>"
      "[USERS_DB_PATH \<mapsto> [[(''username'', JStr ''alice''), (''password'', JStr ''pw'')]]]"
      clear_ext "\<lparr>now = 0, salt = []\<rparr>"]
  by (simp add: field_def readDatabase_def clear_ext_def)


section \<open>Tokens\<close>

text \<open>
  Claim C3. With \<^verbatim>\<open>jsonwebtoken\<close> as assumed for the payload \<^verbatim>\<open>{username: u}\<close>: when a login
  for the string username \<open>u\<close> is answered 200 at second \<open>now w\<close>, the body is
  \<^verbatim>\<open>{token}\<close> with the token signed over \<^verbatim>\<open>{username: u}\<close> with \<^verbatim>\<open>expiresIn: '1h'\<close>; it
  decodes to username \<open>u\<close>, \<^verbatim>\<open>iat\<close> = \<open>now w\<close> and \<^verbatim>\<open>exp\<close> = \<open>now w + 3600\<close>;
  \<^verbatim>\<open>verifyUser\<close> on a request carrying \<^verbatim>\<open>Bearer <token>\<close> lets it through with identity
  \<open>u\<close> at every second before \<open>now w + 3600\<close>, so also at once, and answers 403 from
  second \<open>now w + 3600\<close> on.
\<close>

theorem issued_token_verifies:
  assumes jwt: "jwt_contract E [(''username'', JStr u)]"
    and un: "field (req_body login) ''username'' = Some (JStr u)"
    and ok: "handleLogin E w login files = Inr (Response 200 body, files')"
  shows "\<exists>token.
           body = Json (JObj [(''token'', JStr token)]) \<and>
           token = jwt_sign E [(''username'', JStr u)] SECRET_KEY ''1h'' (now w) \<and>
           (\<forall>w'. now w' < now w + 3600 \<longrightarrow>
              jwt_verify E token SECRET_KEY (now w') =
                Inr [(''username'', JStr u),
                     (''iat'', JNum (of_nat (now w))),
                     (''exp'', JNum (of_nat (now w + 3600)))]) \<and>
           (\<forall>req w'. req_authorization req = Some (''Bearer '' @ token) \<and> now w' < now w + 3600 \<longrightarrow>
              verifyUser E w' req = Inr (req\<lparr>req_username := Some (JStr u)\<rparr>)) \<and>
           (\<forall>req w'. req_authorization req = Some (''Bearer '' @ token) \<and> now w + 3600 \<le> now w' \<longrightarrow>
              verifyUser E w' req = Inl (sendStatus 403))"
proof -
  let ?token = "jwt_sign E [(''username'', JStr u)] SECRET_KEY ''1h'' (now w)"
  have body: "body = Json (JObj [(''token'', JStr ?token)])"
    using ok un
    by (auto simp add: handleLogin_def Let_def split: option.splits sum.splits if_splits)
  have wf: "?token \<noteq> []" "CHR '' '' \<notin> set ?token"
    and ver: "\<And>t'. jwt_verify E ?token SECRET_KEY t' =
                (if t' < now w + 3600
                 then Inr ([(''username'', JStr u)] @
                           [(''iat'', JNum (of_nat (now w))), (''exp'', JNum (of_nat (now w + 3600)))])
                 else Inl TokenExpiredError)"
    using jwt unfolding jwt_contract_def Let_def by blast+
  have acc: "verifyUser E w' req = Inr (req\<lparr>req_username := Some (JStr u)\<rparr>)"
    if "req_authorization req = Some (''Bearer '' @ ?token)" "now w' < now w + 3600" for req w'
    using that(2) wf(1) bearer_token_Bearer[OF that(1) wf(2)]
    by (simp add: verifyUser_def ver field_def del: append.simps)
  have rej: "verifyUser E w' req = Inl (sendStatus 403)"
    if "req_authorization req = Some (''Bearer '' @ ?token)" "now w + 3600 \<le> now w'" for req w'
    using that(2) wf(1) bearer_token_Bearer[OF that(1) wf(2)]
    by (simp add: verifyUser_def ver del: append.simps)
  show ?thesis
    using body ver acc rej by (intro exI[of _ ?token]) simp
qed

theorem issued_token_verifies_witness:
  "jwt_contract clear_ext [(''username'', JStr ''alice'')] \<and>
   handleLogin clear_ext \<lparr>now = 1000, salt = []\<rparr>
     \<lparr>req_method = POST, req_path = ''/login'', req_authorization = None,
      req_body = [(''username'', JStr ''alice''), (''password'', JStr ''pw'')],
      req_username = None\<rparr>
     [USERS_DB_PATH \<mapsto> [[(''username'', JStr ''alice''), (''password'', JStr ''pw'')]]] =
     Inr (Response 200
            (Json (JObj [(''token'',
               JStr (jwt_sign clear_ext [(''username'', JStr ''alice'')] SECRET_KEY ''1h'' 1000))])),
          [USERS_DB_PATH \<mapsto> [[(''username'', JStr ''alice''), (''password'', JStr ''pw'')]]]) \<and>
   verifyUser clear_ext \<lparr>now = 1000, salt = []\<rparr>
     \<lparr>req_method = GET, req_path = ''/userPosts'',
      req_authorization = Some (''Bearer '' @
        jwt_sign clear_ext [(''username'', JStr ''alice'')] SECRET_KEY ''1h'' 1000),
      req_body = [], req_username = None\<rparr> =
     Inr \<lparr>req_method = GET, req_path = ''/userPosts'',
          req_authorization = Some (''Bearer '' @
            jwt_sign clear_ext [(''username'', JStr ''alice'')] SECRET_KEY ''1h'' 1000),
          req_body = [], req_username = Some (JStr ''alice'')\<rparr> \<and>
   verifyUser clear_ext \<lparr>now = 4600, salt = []\<rparr>
     \<lparr>req_method = GET, req_path = ''/userPosts'',
      req_authorization = Some (''Bearer '' @
        jwt_sign clear_ext [(''username'', JStr ''alice'')] SECRET_KEY ''1h'' 1000),
      req_body = [], req_username = None\<rparr> =
     Inl (sendStatus 403)"
proof -
  let ?login = "\<lparr>req_method = POST, req_path = ''/login'', req_authorization = None,
      req_body = [(''username'', JStr ''alice''), (''password'', JStr ''pw'')],
      req_username = None\<rparr>"
  let ?files = "[USERS_DB_PATH \<mapsto> [[(''username'', JStr ''alice''), (''password'', JStr ''pw'')]]]"
  let ?tok = "jwt_sign clear_ext [(''username'', JStr ''alice'')] SECRET_KEY ''1h'' 1000"
  let ?req = "\<lparr>req_method = GET, req_path = ''/userPosts'',
      req_authorization = Some (''Bearer '' @ ?tok), req_body = [], req_username = None\<rparr>"
  have un: "field (req_body ?login) ''username'' = Some (JStr ''alice'')"
    by (simp add: field_def)
  have ok: "handleLogin clear_ext \<lparr>now = 1000, salt = []\<rparr> ?login ?files =
      Inr (Response 200 (Json (JObj [(''token'', JStr ?tok)])), ?files)"
    by (simp add: handleLogin_def readDatabase_def field_def clear_ext_def)
  from issued_token_verifies[OF clear_ext_jwt un ok]
  have acc: "\<And>req w'. req_authorization req = Some (''Bearer '' @ ?tok) \<and> now w' < 1000 + 3600 \<Longrightarrow>
              verifyUser clear_ext w' req = Inr (req\<lparr>req_username := Some (JStr ''alice'')\<rparr>)"
    and rej: "\<And>req w'. req_authorization req = Some (''Bearer '' @ ?tok) \<and> 1000 + 3600 \<le> now w' \<Longrightarrow>
              verifyUser clear_ext w' req = Inl (sendStatus 403)"
    by auto
  have a: "verifyUser clear_ext \<lparr>now = 1000, salt = []\<rparr> ?req =
      Inr (?req\<lparr>req_username := Some (JStr ''alice'')\<rparr>)"
    by (rule acc) simp
  have r: "verifyUser clear_ext \<lparr>now = 4600, salt = []\<rparr> ?req = Inl (sendStatus 403)"
    by (rule rej) simp
  show ?thesis
    using clear_ext_jwt ok a r by simp
qed

lemma authenticated_routes_cases:
  assumes "(m, p, True, h) \<in> set routes"
  shows
    "m = GET \<and> p = ''/accounts'' \<and> h = fetchAllAccounts \<or>
     m = POST \<and> p = ''/request'' \<and> h = handleRequest \<or>
     m = GET \<and> p = ''/pendingRequests'' \<and> h = fetchPendingRequests \<or>
     m = POST \<and> p = ''/acceptRequest'' \<and> h = handleAcceptRequest \<or>
     m = POST \<and> p = ''/createPost'' \<and> h = handleCreatePost \<or>
     m = GET \<and> p = ''/userPosts'' \<and> h = fetchUserPosts \<or>
     m = POST \<and> p = ''/updatePrivacySettings'' \<and> h = handlePrivacySettings \<or>
     m = POST \<and> p = ''/removePost'' \<and> h = handleRemovePost \<or>
     m = POST \<and> p = ''/likePost'' \<and> h = handleLikePost \<or>
     m = POST \<and> p = ''/addComment'' \<and> h = handleAddComment"
  using assms unfolding routes_def by simp

lemma authenticated_route_found:
  assumes "(m, p, True, h) \<in> set routes"
  shows "find (\<lambda>(m', p', r). m' = m \<and> p' = p) routes = Some (m, p, True, h)"
  using authenticated_routes_cases[OF assms]
  by (elim disjE conjE) (simp_all add: routes_def)

lemma authenticated_handler_status:
  assumes "(m, p, True, h) \<in> set routes"
  shows "\<exists>code b f. h E w req files = Inr (Response code b, f) \<and> (code = 200 \<or> code = 201)"
  using authenticated_routes_cases[OF assms]
  by (elim disjE conjE)
     (simp_all add: fetchAllAccounts_def handleRequest_def fetchPendingRequests_def
        handleAcceptRequest_def handleCreatePost_def fetchUserPosts_def handlePrivacySettings_def
        handleRemovePost_def handleLikePost_def handleAddComment_def Let_def)

lemma authenticated_route_runs_verifyUser:
  assumes "(m, p, True, h) \<in> set routes" "req_method req = m" "req_path req = p"
  shows "app E w req files =
           (case verifyUser E w req of
              Inl res \<Rightarrow> Inr (res, files)
            | Inr req' \<Rightarrow> h E w req' files)"
  using authenticated_route_found[OF assms(1)] assms(2,3)
  by (simp add: app_def run_route_def split: sum.splits)

text \<open>
  Claim C4. On every route that runs \<^verbatim>\<open>verifyUser\<close>: a request without an
  \<^verbatim>\<open>Authorization\<close> header, or whose header has no or an empty second word, is answered
  401 and the files are untouched; a request whose token \<^verbatim>\<open>jwt.verify\<close> refuses is answered
  403 and the files are untouched. The route answers 401 in the first case only and 403 in
  the second case only.
\<close>

theorem missing_and_invalid_token:
  assumes "(m, p, True, h) \<in> set routes" "req_method req = m" "req_path req = p"
  shows "(req_authorization req = None \<longrightarrow>
            app E w req files = Inr (Response 401 StatusMessage, files)) \<and>
         (bearer_token req = None \<or> bearer_token req = Some [] \<longrightarrow>
            app E w req files = Inr (Response 401 StatusMessage, files)) \<and>
         (\<forall>token e. bearer_token req = Some token \<and> token \<noteq> [] \<and>
            jwt_verify E token SECRET_KEY (now w) = Inl e \<longrightarrow>
            app E w req files = Inr (Response 403 StatusMessage, files)) \<and>
         ((\<exists>b f. app E w req files = Inr (Response 401 b, f)) \<longleftrightarrow>
            bearer_token req = None \<or> bearer_token req = Some []) \<and>
         ((\<exists>b f. app E w req files = Inr (Response 403 b, f)) \<longleftrightarrow>
            (\<exists>token e. bearer_token req = Some token \<and> token \<noteq> [] \<and>
               jwt_verify E token SECRET_KEY (now w) = Inl e))"
proof -
  note run = authenticated_route_runs_verifyUser[OF assms, of E w files]
  consider (missing) "bearer_token req = None \<or> bearer_token req = Some []"
    | (invalid) token e where "bearer_token req = Some token" "token \<noteq> []"
        "jwt_verify E token SECRET_KEY (now w) = Inl e"
    | (valid) token decoded where "bearer_token req = Some token" "token \<noteq> []"
        "jwt_verify E token SECRET_KEY (now w) = Inr decoded"
    by (cases "bearer_token req"; cases "jwt_verify E (the (bearer_token req)) SECRET_KEY (now w)") auto
  then show ?thesis
  proof cases
    case missing
    then have "app E w req files = Inr (Response 401 StatusMessage, files)"
      unfolding run by (auto simp add: verifyUser_def sendStatus_def)
    with missing show ?thesis
      using bearer_token_absent[of req] by auto
  next
    case invalid
    then have "app E w req files = Inr (Response 403 StatusMessage, files)"
      unfolding run by (simp add: verifyUser_def sendStatus_def)
    with invalid show ?thesis
      using bearer_token_absent[of req] by auto
  next
    case valid
    then have "app E w req files = h E w (req\<lparr>req_username := field decoded ''username''\<rparr>) files"
      unfolding run by (simp add: verifyUser_def)
    moreover obtain code b f where
      "h E w (req\<lparr>req_username := field decoded ''username''\<rparr>) files = Inr (Response code b, f)"
      "code = 200 \<or> code = 201"
      using authenticated_handler_status[OF assms(1)] by blast
    ultimately show ?thesis
      using valid bearer_token_absent[of req] by auto
  qed
qed

theorem missing_and_invalid_token_witness:
  "(POST, ''/removePost'', True, handleRemovePost) \<in> set routes \<and>
   app clear_ext \<lparr>now = 0, salt = []\<rparr>
     \<lparr>req_method = POST, req_path = ''/removePost'', req_authorization = None,
      req_body = [(''postId'', JNum 1)], req_username = None\<rparr>
     Map.empty = Inr (Response 401 StatusMessage, Map.empty) \<and>
   app clear_ext \<lparr>now = 0, salt = []\<rparr>
     \<lparr>req_method = POST, req_path = ''/removePost'', req_authorization = Some ''Bearer nonsense'',
      req_body = [(''postId'', JNum 1)], req_username = None\<rparr>
     Map.empty = Inr (Response 403 StatusMessage, Map.empty)"
proof -
  have r: "(POST, ''/removePost'', True, handleRemovePost) \<in> set routes"
    by (simp add: routes_def)
  have b: "bearer_token \<lparr>req_method = POST, req_path = ''/removePost'',
      req_authorization = Some ''Bearer nonsense'',
      req_body = [(''postId'', JNum 1)], req_username = None\<rparr> = Some ''nonsense''"
    by (simp add: bearer_token_def nth_opt_def)
  have v: "jwt_verify clear_ext ''nonsense'' SECRET_KEY 0 = Inl JsonWebTokenError"
    by (simp add: clear_ext_def)
  show ?thesis
    using r b v
      missing_and_invalid_token[OF r, of
        "\<lparr>req_method = POST, req_path = ''/removePost'', req_authorization = None,
          req_body = [(''postId'', JNum 1)], req_username = None\<rparr>"
        clear_ext "\<lparr>now = 0, salt = []\<rparr>" Map.empty]
      missing_and_invalid_token[OF r, of
        "\<lparr>req_method = POST, req_path = ''/removePost'',
          req_authorization = Some ''Bearer nonsense'',
          req_body = [(''postId'', JNum 1)], req_username = None\<rparr>"
        clear_ext "\<lparr>now = 0, salt = []\<rparr>" Map.empty]
    by simp
qed


section \<open>Posts\<close>

lemma create_post_shape:
  "\<exists>newPost.
     handleCreatePost E w req files =
       Inr (Response 201 (Json (JObj newPost)),
            files(POSTS_DB_PATH \<mapsto> readDatabase files POSTS_DB_PATH @ [newPost])) \<and>
     field newPost ''id'' = Some (JNum (of_nat (length (readDatabase files POSTS_DB_PATH)) + 1)) \<and>
     field newPost ''username'' = req_username req \<and>
     field newPost ''content'' = field (req_body req) ''content''"
  by (simp add: handleCreatePost_def Let_def writeDatabase_def field_json_object
           del: json_object.simps)

text \<open>
  Claim C5. \<^verbatim>\<open>handleCreatePost\<close> always answers 201 with the new post. Its id is the number
  of posts read from the file plus one, its owner is the identity of the request and its
  content is the \<^verbatim>\<open>content\<close> of the body; the post file then holds the posts read followed
  by the new post, and the user file is not touched. When no post was there (the file is
  absent or holds the empty list) the id is 1, and the post created next, by whatever
  request, has id 2.
\<close>

theorem create_post_id:
  "\<exists>newPost files'.
     handleCreatePost E w req files = Inr (Response 201 (Json (JObj newPost)), files') \<and>
     field newPost ''id'' = Some (JNum (of_nat (length (readDatabase files POSTS_DB_PATH)) + 1)) \<and>
     field newPost ''username'' = req_username req \<and>
     field newPost ''content'' = field (req_body req) ''content'' \<and>
     readDatabase files' POSTS_DB_PATH = readDatabase files POSTS_DB_PATH @ [newPost] \<and>
     files' USERS_DB_PATH = files USERS_DB_PATH \<and>
     (readDatabase files POSTS_DB_PATH = [] \<longrightarrow>
        field newPost ''id'' = Some (JNum 1) \<and>
        (\<exists>second files''.
           handleCreatePost E2 w2 req2 files' = Inr (Response 201 (Json (JObj second)), files'') \<and>
           field second ''id'' = Some (JNum 2)))"
proof -
  obtain newPost where np:
    "handleCreatePost E w req files =
       Inr (Response 201 (Json (JObj newPost)),
            files(POSTS_DB_PATH \<mapsto> readDatabase files POSTS_DB_PATH @ [newPost]))"
    "field newPost ''id'' = Some (JNum (of_nat (length (readDatabase files POSTS_DB_PATH)) + 1))"
    "field newPost ''username'' = req_username req"
    "field newPost ''content'' = field (req_body req) ''content''"
    using create_post_shape by blast
  let ?files' = "files(POSTS_DB_PATH \<mapsto> readDatabase files POSTS_DB_PATH @ [newPost])"
  have rd: "readDatabase ?files' POSTS_DB_PATH = readDatabase files POSTS_DB_PATH @ [newPost]"
    by (simp add: readDatabase_def)
  obtain second where sec:
    "handleCreatePost E2 w2 req2 ?files' =
       Inr (Response 201 (Json (JObj second)),
            ?files'(POSTS_DB_PATH \<mapsto> readDatabase ?files' POSTS_DB_PATH @ [second]))"
    "field second ''id'' = Some (JNum (of_nat (length (readDatabase ?files' POSTS_DB_PATH)) + 1))"
    using create_post_shape by blast
  have "readDatabase files POSTS_DB_PATH = [] \<Longrightarrow> field second ''id'' = Some (JNum 2)"
    using sec(2) by (simp add: readDatabase_write)
  moreover have "readDatabase files POSTS_DB_PATH = [] \<Longrightarrow> field newPost ''id'' = Some (JNum 1)"
    using np(2) by simp
  ultimately show ?thesis
    using np sec(1) rd by auto
qed

theorem create_post_id_witness:
  "readDatabase Map.empty POSTS_DB_PATH = [] \<and>
   (\<exists>newPost files'.
      handleCreatePost clear_ext \<lparr>now = 0, salt = []\<rparr>
        \<lparr>req_method = POST, req_path = ''/createPost'', req_authorization = None,
         req_body = [(''content'', JStr ''hi'')], req_username = Some (JStr ''bob'')\<rparr>
        Map.empty = Inr (Response 201 (Json (JObj newPost)), files') \<and>
      field newPost ''id'' = Some (JNum 1) \<and>
      field newPost ''username'' = Some (JStr ''bob'') \<and>
      field newPost ''content'' = Some (JStr ''hi'') \<and>
      (\<exists>second files''.
         handleCreatePost clear_ext \<lparr>now = 7, salt = []\<rparr>
           \<lparr>req_method = POST, req_path = ''/createPost'', req_authorization = None,
            req_body = [(''content'', JStr ''again'')], req_username = Some (JStr ''bob'')\<rparr>
           files' = Inr (Response 201 (Json (JObj second)), files'') \<and>
         field second ''id'' = Some (JNum 2)))"
proof -
  have h: "readDatabase Map.empty POSTS_DB_PATH = []"
    by (simp add: readDatabase_def)
  from create_post_id[of clear_ext "\<lparr>now = 0, salt = []\<rparr>"
      "\<lparr>req_method = POST, req_path = ''/createPost'', req_authorization = None,
        req_body = [(''content'', JStr ''hi'')], req_username = Some (JStr ''bob'')\<rparr>"
      Map.empty clear_ext "\<lparr>now = 7, salt = []\<rparr>"
      "\<lparr>req_method = POST, req_path = ''/createPost'', req_authorization = None,
        req_body = [(''content'', JStr ''again'')], req_username = Some (JStr ''bob'')\<rparr>"]
  show ?thesis
    using h by (auto simp add: field_def)
qed

text \<open>
  Claim C6. \<^verbatim>\<open>handleRemovePost\<close> always answers 200 "Post removed", never an error. The post
  file then holds, in their order and as they were, the posts read whose \<^verbatim>\<open>id\<close> is not
  \<^verbatim>\<open>===\<close> the \<^verbatim>\<open>postId\<close> of the body; for a number \<open>n\<close> as \<^verbatim>\<open>postId\<close> these are the
  posts whose id is not the number \<open>n\<close>. When no post read has that id, the posts are the
  posts read. The user file is not touched.
\<close>

theorem remove_post_by_id:
  "\<exists>files'.
     handleRemovePost E w req files = Inr (Response 200 (Text ''Post removed''), files') \<and>
     readDatabase files' POSTS_DB_PATH =
       filter (\<lambda>post. \<not> strict_eq (field post ''id'') (field (req_body req) ''postId''))
         (readDatabase files POSTS_DB_PATH) \<and>
     (\<forall>n. field (req_body req) ''postId'' = Some (JNum n) \<longrightarrow>
        readDatabase files' POSTS_DB_PATH =
          filter (\<lambda>post. field post ''id'' \<noteq> Some (JNum n)) (readDatabase files POSTS_DB_PATH)) \<and>
     ((\<forall>post \<in> set (readDatabase files POSTS_DB_PATH).
         \<not> strict_eq (field post ''id'') (field (req_body req) ''postId'')) \<longrightarrow>
        readDatabase files' POSTS_DB_PATH = readDatabase files POSTS_DB_PATH) \<and>
     files' USERS_DB_PATH = files USERS_DB_PATH"
  by (simp add: handleRemovePost_def writeDatabase_def readDatabase_write strict_eq_num)

theorem remove_post_by_id_witness:
  "(\<exists>files'.
      handleRemovePost clear_ext \<lparr>now = 0, salt = []\<rparr>
        \<lparr>req_method = POST, req_path = ''/removePost'', req_authorization = None,
         req_body = [(''postId'', JNum 1)], req_username = Some (JStr ''bob'')\<rparr>
        [POSTS_DB_PATH \<mapsto>
           [[(''id'', JNum 1), (''username'', JStr ''bob''), (''content'', JStr ''hi'')],
            [(''id'', JNum 2), (''username'', JStr ''eve''), (''content'', JStr ''yo'')]]] =
        Inr (Response 200 (Text ''Post removed''), files') \<and>
      readDatabase files' POSTS_DB_PATH =
        [[(''id'', JNum 2), (''username'', JStr ''eve''), (''content'', JStr ''yo'')]]) \<and>
   (\<exists>files'.
      handleRemovePost clear_ext \<lparr>now = 0, salt = []\<rparr>
        \<lparr>req_method = POST, req_path = ''/removePost'', req_authorization = None,
         req_body = [(''postId'', JNum 3)], req_username = Some (JStr ''bob'')\<rparr>
        [POSTS_DB_PATH \<mapsto>
           [[(''id'', JNum 1), (''username'', JStr ''bob''), (''content'', JStr ''hi'')],
            [(''id'', JNum 2), (''username'', JStr ''eve''), (''content'', JStr ''yo'')]]] =
        Inr (Response 200 (Text ''Post removed''), files') \<and>
      readDatabase files' POSTS_DB_PATH =
        [[(''id'', JNum 1), (''username'', JStr ''bob''), (''content'', JStr ''hi'')],
         [(''id'', JNum 2), (''username'', JStr ''eve''), (''content'', JStr ''yo'')]])"
  using
    remove_post_by_id[of clear_ext "\<lparr>now = 0, salt = []\<rparr>"
      "\<lparr>req_method = POST, req_path = ''/removePost'', req_authorization = None,
        req_body = [(''postId'', JNum 1)], req_username = Some (JStr ''bob'')\<rparr>"
      "[POSTS_DB_PATH \<mapsto>
          [[(''id'', JNum 1), (''username'', JStr ''bob''), (''content'', JStr ''hi'')],
           [(''id'', JNum 2), (''username'', JStr ''eve''), (''content'', JStr ''yo'')]]]"]
    remove_post_by_id[of clear_ext "\<lparr>now = 0, salt = []\<rparr>"
      "\<lparr>req_method = POST, req_path = ''/removePost'', req_authorization = None,
        req_body = [(''postId'', JNum 3)], req_username = Some (JStr ''bob'')\<rparr>"
      "[POSTS_DB_PATH \<mapsto>
          [[(''id'', JNum 1), (''username'', JStr ''bob''), (''content'', JStr ''hi'')],
           [(''id'', JNum 2), (''username'', JStr ''eve''), (''content'', JStr ''yo'')]]]"]
  by (auto simp add: field_def readDatabase_def)

text \<open>
  Claim C10. \<^verbatim>\<open>handleRemovePost\<close> compares with \<^verbatim>\<open>!==\<close>, by type and value, and always
  answers 200 "Post removed". When the \<^verbatim>\<open>postId\<close> of the body is a primitive (a number, a
  string, a boolean, \<^verbatim>\<open>null\<close>, or missing), the post file is rewritten with the posts
  read whose \<^verbatim>\<open>id\<close> is not that very value, in their order: a post is removed exactly when
  its id is the same value of the same type. When \<^verbatim>\<open>postId\<close> is an array or an object, or
  when no post read has \<^verbatim>\<open>postId\<close> as its id, the posts are written back as they were
  read; so it is for a string \<^verbatim>\<open>postId\<close> when every post read has a number as id, as the
  posts made by \<^verbatim>\<open>handleCreatePost\<close> have.
\<close>

theorem remove_post_strict:
  "((\<forall>xs. field (req_body req) ''postId'' \<noteq> Some (JArr xs)) \<and>
    (\<forall>kvs. field (req_body req) ''postId'' \<noteq> Some (JObj kvs)) \<longrightarrow>
      handleRemovePost E w req files =
        Inr (Response 200 (Text ''Post removed''),
             files(POSTS_DB_PATH \<mapsto>
               filter (\<lambda>post. field post ''id'' \<noteq> field (req_body req) ''postId'')
                 (readDatabase files POSTS_DB_PATH)))) \<and>
   ((\<exists>xs. field (req_body req) ''postId'' = Some (JArr xs)) \<or>
    (\<exists>kvs. field (req_body req) ''postId'' = Some (JObj kvs)) \<longrightarrow>
      handleRemovePost E w req files =
        Inr (Response 200 (Text ''Post removed''),
             files(POSTS_DB_PATH \<mapsto> readDatabase files POSTS_DB_PATH))) \<and>
   ((\<forall>post \<in> set (readDatabase files POSTS_DB_PATH).
       field post ''id'' \<noteq> field (req_body req) ''postId'') \<longrightarrow>
      handleRemovePost E w req files =
        Inr (Response 200 (Text ''Post removed''),
             files(POSTS_DB_PATH \<mapsto> readDatabase files POSTS_DB_PATH))) \<and>
   (\<forall>s. field (req_body req) ''postId'' = Some (JStr s) \<longrightarrow>
      (\<forall>post \<in> set (readDatabase files POSTS_DB_PATH). \<exists>n. field post ''id'' = Some (JNum n)) \<longrightarrow>
      handleRemovePost E w req files =
        Inr (Response 200 (Text ''Post removed''),
             files(POSTS_DB_PATH \<mapsto> readDatabase files POSTS_DB_PATH)))"
proof -
  let ?postId = "field (req_body req) ''postId''"
  let ?posts = "readDatabase files POSTS_DB_PATH"
  have run: "handleRemovePost E w req files =
      Inr (Response 200 (Text ''Post removed''),
           files(POSTS_DB_PATH \<mapsto> filter (\<lambda>post. \<not> strict_eq (field post ''id'') ?postId) ?posts))"
    by (simp add: handleRemovePost_def writeDatabase_def)
  have prim: "filter (\<lambda>post. \<not> strict_eq (field post ''id'') ?postId) ?posts =
              filter (\<lambda>post. field post ''id'' \<noteq> ?postId) ?posts"
    if "\<forall>xs. ?postId \<noteq> Some (JArr xs)" "\<forall>kvs. ?postId \<noteq> Some (JObj kvs)"
    using that by (simp add: strict_eq_plain)
  have comp: "filter (\<lambda>post. \<not> strict_eq (field post ''id'') ?postId) ?posts = ?posts"
    if "(\<exists>xs. ?postId = Some (JArr xs)) \<or> (\<exists>kvs. ?postId = Some (JObj kvs))"
    using that by (auto simp add: strict_eq_plain)
  have nomatch: "filter (\<lambda>post. \<not> strict_eq (field post ''id'') ?postId) ?posts = ?posts"
    if "\<forall>post \<in> set ?posts. field post ''id'' \<noteq> ?postId"
    using that by (simp add: strict_eq_plain filter_id_conv)
  have str: "filter (\<lambda>post. \<not> strict_eq (field post ''id'') ?postId) ?posts = ?posts"
    if "?postId = Some (JStr s)" "\<forall>post \<in> set ?posts. \<exists>n. field post ''id'' = Some (JNum n)" for s
    using that by (auto simp add: strict_eq_plain filter_id_conv)
  show ?thesis
    unfolding run using prim comp nomatch str by (intro conjI impI allI) simp_all
qed

theorem remove_post_strict_witness:
  "handleRemovePost clear_ext \<lparr>now = 0, salt = []\<rparr>
     \<lparr>req_method = POST, req_path = ''/removePost'', req_authorization = None,
      req_body = [(''postId'', JStr ''1'')], req_username = Some (JStr ''bob'')\<rparr>
     [POSTS_DB_PATH \<mapsto>
        [[(''id'', JNum 1), (''username'', JStr ''bob''), (''content'', JStr ''hi'')],
         [(''id'', JNum 2), (''username'', JStr ''eve''), (''content'', JStr ''yo'')]]] =
     Inr (Response 200 (Text ''Post removed''),
          [POSTS_DB_PATH \<mapsto>
             [[(''id'', JNum 1), (''username'', JStr ''bob''), (''content'', JStr ''hi'')],
              [(''id'', JNum 2), (''username'', JStr ''eve''), (''content'', JStr ''yo'')]]]) \<and>
   handleRemovePost clear_ext \<lparr>now = 0, salt = []\<rparr>
     \<lparr>req_method = POST, req_path = ''/removePost'', req_authorization = None,
      req_body = [(''postId'', JNum 1)], req_username = Some (JStr ''bob'')\<rparr>
     [POSTS_DB_PATH \<mapsto>
        [[(''id'', JNum 1), (''username'', JStr ''bob''), (''content'', JStr ''hi'')],
         [(''id'', JStr ''1''), (''username'', JStr ''eve''), (''content'', JStr ''yo'')],
         [(''id'', JNum 2), (''username'', JStr ''eve''), (''content'', JStr ''yo'')]]] =
     Inr (Response 200 (Text ''Post removed''),
          [POSTS_DB_PATH \<mapsto>
             [[(''id'', JStr ''1''), (''username'', JStr ''eve''), (''content'', JStr ''yo'')],
              [(''id'', JNum 2), (''username'', JStr ''eve''), (''content'', JStr ''yo'')]]]) \<and>
   handleRemovePost clear_ext \<lparr>now = 0, salt = []\<rparr>
     \<lparr>req_method = POST, req_path = ''/removePost'', req_authorization = None,
      req_body = [(''postId'', JStr ''1'')], req_username = Some (JStr ''bob'')\<rparr>
     [POSTS_DB_PATH \<mapsto>
        [[(''id'', JNum 1), (''username'', JStr ''bob''), (''content'', JStr ''hi'')],
         [(''id'', JStr ''1''), (''username'', JStr ''eve''), (''content'', JStr ''yo'')],
         [(''id'', JNum 2), (''username'', JStr ''eve''), (''content'', JStr ''yo'')]]] =
     Inr (Response 200 (Text ''Post removed''),
          [POSTS_DB_PATH \<mapsto>
             [[(''id'', JNum 1), (''username'', JStr ''bob''), (''content'', JStr ''hi'')],
              [(''id'', JNum 2), (''username'', JStr ''eve''), (''content'', JStr ''yo'')]]]) \<and>
   handleRemovePost clear_ext \<lparr>now = 0, salt = []\<rparr>
     \<lparr>req_method = POST, req_path = ''/removePost'', req_authorization = None,
      req_body = [(''postId'', JArr [JNum 1])], req_username = Some (JStr ''bob'')\<rparr>
     [POSTS_DB_PATH \<mapsto>
        [[(''id'', JArr [JNum 1]), (''username'', JStr ''bob''), (''content'', JStr ''hi'')]]] =
     Inr (Response 200 (Text ''Post removed''),
          [POSTS_DB_PATH \<mapsto>
             [[(''id'', JArr [JNum 1]), (''username'', JStr ''bob''), (''content'', JStr ''hi'')]]])"
  using
    remove_post_strict[of
      "\<lparr>req_method = POST, req_path = ''/removePost'', req_authorization = None,
        req_body = [(''postId'', JStr ''1'')], req_username = Some (JStr ''bob'')\<rparr>"
      clear_ext "\<lparr>now = 0, salt = []\<rparr>"
      "[POSTS_DB_PATH \<mapsto>
          [[(''id'', JNum 1), (''username'', JStr ''bob''), (''content'', JStr ''hi'')],
           [(''id'', JNum 2), (''username'', JStr ''eve''), (''content'', JStr ''yo'')]]]"]
    remove_post_strict[of
      "\<lparr>req_method = POST, req_path = ''/removePost'', req_authorization = None,
        req_body = [(''postId'', JNum 1)], req_username = Some (JStr ''bob'')\<rparr>"
      clear_ext "\<lparr>now = 0, salt = []\<rparr>"
      "[POSTS_DB_PATH \<mapsto>
        [[(''id'', JNum 1), (''username'', JStr ''bob''), (''content'', JStr ''hi'')],
         [(''id'', JStr ''1''), (''username'', JStr ''eve''), (''content'', JStr ''yo'')],
         [(''id'', JNum 2), (''username'', JStr ''eve''), (''content'', JStr ''yo'')]]]"]
    remove_post_strict[of
      "\<lparr>req_method = POST, req_path = ''/removePost'', req_authorization = None,
        req_body = [(''postId'', JStr ''1'')], req_username = Some (JStr ''bob'')\<rparr>"
      clear_ext "\<lparr>now = 0, salt = []\<rparr>"
      "[POSTS_DB_PATH \<mapsto>
        [[(''id'', JNum 1), (''username'', JStr ''bob''), (''content'', JStr ''hi'')],
         [(''id'', JStr ''1''), (''username'', JStr ''eve''), (''content'', JStr ''yo'')],
         [(''id'', JNum 2), (''username'', JStr ''eve''), (''content'', JStr ''yo'')]]]"]
    remove_post_strict[of
      "\<lparr>req_method = POST, req_path = ''/removePost'', req_authorization = None,
        req_body = [(''postId'', JArr [JNum 1])], req_username = Some (JStr ''bob'')\<rparr>"
      clear_ext "\<lparr>now = 0, salt = []\<rparr>"
      "[POSTS_DB_PATH \<mapsto>
        [[(''id'', JArr [JNum 1]), (''username'', JStr ''bob''), (''content'', JStr ''hi'')]]]"]
  by (simp add: field_def readDatabase_def)

text \<open>
  Claim C7. For a request whose identity is the string \<open>owner\<close>, \<^verbatim>\<open>fetchUserPosts\<close>
  answers 200 with the posts of the file whose \<^verbatim>\<open>username\<close> is the string \<open>owner\<close>, in
  the order of the file, and leaves the files untouched.
\<close>

theorem list_by_owner:
  "fetchUserPosts E w (req\<lparr>req_username := Some (JStr owner)\<rparr>) files =
     Inr (Response 200
            (Json (JArr (map JObj
               (filter (\<lambda>post. field post ''username'' = Some (JStr owner))
                  (readDatabase files POSTS_DB_PATH))))),
          files)"
  by (simp add: fetchUserPosts_def strict_eq_str)

theorem list_by_owner_witness:
  "fetchUserPosts clear_ext \<lparr>now = 0, salt = []\<rparr>
     (\<lparr>req_method = GET, req_path = ''/userPosts'', req_authorization = None,
       req_body = [], req_username = None\<rparr>\<lparr>req_username := Some (JStr ''bob'')\<rparr>)
     [POSTS_DB_PATH \<mapsto>
        [[(''id'', JNum 1), (''username'', JStr ''bob''), (''content'', JStr ''hi'')],
         [(''id'', JNum 2), (''username'', JStr ''eve''), (''content'', JStr ''yo'')],
         [(''id'', JNum 3), (''username'', JStr ''Bob''), (''content'', JStr ''no'')],
         [(''id'', JNum 4), (''username'', JStr ''bob''), (''content'', JStr ''again'')]]] =
     Inr (Response 200
            (Json (JArr
               [JObj [(''id'', JNum 1), (''username'', JStr ''bob''), (''content'', JStr ''hi'')],
                JObj [(''id'', JNum 4), (''username'', JStr ''bob''), (''content'', JStr ''again'')]])),
          [POSTS_DB_PATH \<mapsto>
             [[(''id'', JNum 1), (''username'', JStr ''bob''), (''content'', JStr ''hi'')],
              [(''id'', JNum 2), (''username'', JStr ''eve''), (''content'', JStr ''yo'')],
              [(''id'', JNum 3), (''username'', JStr ''Bob''), (''content'', JStr ''no'')],
              [(''id'', JNum 4), (''username'', JStr ''bob''), (''content'', JStr ''again'')]]])"
  using list_by_owner[of clear_ext "\<lparr>now = 0, salt = []\<rparr>" "''bob''"
      "\<lparr>req_method = GET, req_path = ''/userPosts'', req_authorization = None,
        req_body = [], req_username = None\<rparr>"
      "[POSTS_DB_PATH \<mapsto>
        [[(''id'', JNum 1), (''username'', JStr ''bob''), (''content'', JStr ''hi'')],
         [(''id'', JNum 2), (''username'', JStr ''eve''), (''content'', JStr ''yo'')],
         [(''id'', JNum 3), (''username'', JStr ''Bob''), (''content'', JStr ''no'')],
         [(''id'', JNum 4), (''username'', JStr ''bob''), (''content'', JStr ''again'')]]]"]
  by (simp add: field_def readDatabase_def)

end
